theory Spec2Isabelle
  imports Complex_Main "HOL-Library.Word"
begin

section \<open>JavaScript strings\<close>

text \<open>
  A JavaScript string is a sequence of UTF-16 code units. The source only ever compares,
  cuts and concatenates strings, so a string is modelled as the list of its code units.
  \<open>js\<close> writes a string of the source whose characters are all below U+0100.
\<close>

type_synonym code_unit = "16 word"
type_synonym jsstring = "code_unit list"

definition js :: "string \<Rightarrow> jsstring" where
  "js s = map of_char s"

text \<open>\<open>s.startsWith(p)\<close>, used to find the matches of a literal pattern.\<close>

fun starts_with :: "jsstring \<Rightarrow> jsstring \<Rightarrow> bool" where
  "starts_with [] s = True"
| "starts_with (p # ps) [] = False"
| "starts_with (p # ps) (c # cs) = (p = c \<and> starts_with ps cs)"

text \<open>
  \<open>s.replace(/p/g, '')\<close> for a pattern \<open>p\<close> that is a non-empty literal: the matches
  are found from left to right, a match is dropped and the search goes on behind it
  (text that has been passed is never scanned again).
\<close>

fun remove_all :: "jsstring \<Rightarrow> jsstring \<Rightarrow> jsstring" where
  "remove_all p [] = []"
| "remove_all p (c # cs) =
     (if p \<noteq> [] \<and> starts_with p (c # cs)
      then remove_all p (drop (length p - 1) cs)
      else c # remove_all p cs)"

text \<open>
  The code units that \<open>String.prototype.trim\<close> removes: WhiteSpace and LineTerminator
  of ECMA-262 (TAB, LF, VT, FF, CR, SP, NBSP, U+1680, U+2000..U+200A, U+2028, U+2029,
  U+202F, U+205F, U+3000, U+FEFF).
\<close>

definition is_js_space :: "code_unit \<Rightarrow> bool" where
  "is_js_space c \<longleftrightarrow>
     c \<in> set [0x09, 0x0A, 0x0B, 0x0C, 0x0D, 0x20, 0xA0, 0x1680, 0x2028, 0x2029,
              0x202F, 0x205F, 0x3000, 0xFEFF]
     \<or> (0x2000 \<le> c \<and> c \<le> 0x200A)"

definition trim :: "jsstring \<Rightarrow> jsstring" where
  "trim s = rev (dropWhile is_js_space (rev (dropWhile is_js_space s)))"

text \<open>\<open>s.split(c)\<close> for a separator of one code unit.\<close>

fun split :: "code_unit \<Rightarrow> jsstring \<Rightarrow> jsstring list" where
  "split sep [] = [[]]"
| "split sep (c # cs) =
     (if c = sep then [] # split sep cs
      else (case split sep cs of
              [] \<Rightarrow> [[c]]
            | p # ps \<Rightarrow> (c # p) # ps))"

text \<open>The decimal digits of a number, as a template literal prints an integer.\<close>

function to_dec :: "nat \<Rightarrow> jsstring" where
  "to_dec n = (if n < 10 then [of_nat (48 + n)] else to_dec (n div 10) @ [of_nat (48 + n mod 10)])"
  by pat_completeness auto
termination
  by (relation "measure id") auto

section \<open>JSON values and \<open>JSON.parse\<close>\<close>

text \<open>
  The values \<open>JSON.parse\<close> can return. A number stands for the exact decimal value of
  its literal (the rounding to a double is left out; no decision of the source depends
  on it). An object is the list of its properties in the order of their first
  definition.
\<close>

datatype json =
    JNull
  | JBool bool
  | JNumber rat
  | JString jsstring
  | JArray "json list"
  | JObject "(jsstring \<times> json) list"

text \<open>
  Defining a property of an object being built: a key that is there already keeps its
  place and gets the new value, as \<open>JSON.parse\<close> does with a repeated key.
\<close>

fun set_prop :: "jsstring \<Rightarrow> json \<Rightarrow> (jsstring \<times> json) list \<Rightarrow> (jsstring \<times> json) list" where
  "set_prop k v [] = [(k, v)]"
| "set_prop k v ((k', v') # ms) =
     (if k = k' then (k, v) # ms else (k', v') # set_prop k v ms)"

subsection \<open>Tokens\<close>

datatype token =
    LBrace | RBrace | LBracket | RBracket | Colon | Comma
  | TString jsstring
  | TNumber rat
  | TTrue | TFalse | TNull

definition is_json_space :: "code_unit \<Rightarrow> bool" where
  "is_json_space c \<longleftrightarrow> c = 0x09 \<or> c = 0x0A \<or> c = 0x0D \<or> c = 0x20"

definition is_digit :: "code_unit \<Rightarrow> bool" where
  "is_digit c \<longleftrightarrow> 0x30 \<le> c \<and> c \<le> 0x39"

definition hex_val :: "code_unit \<Rightarrow> nat option" where
  "hex_val c =
     (if 0x30 \<le> c \<and> c \<le> 0x39 then Some (unat c - 0x30)
      else if 0x41 \<le> c \<and> c \<le> 0x46 then Some (unat c - 0x41 + 10)
      else if 0x61 \<le> c \<and> c \<le> 0x66 then Some (unat c - 0x61 + 10)
      else None)"

text \<open>The code unit of a one-letter escape: \<open>\" \\ \/ \b \f \n \r \t\<close>.\<close>

definition simple_escape :: "code_unit \<Rightarrow> code_unit option" where
  "simple_escape e =
     (if e = 0x22 then Some 0x22
      else if e = 0x5C then Some 0x5C
      else if e = 0x2F then Some 0x2F
      else if e = 0x62 then Some 0x08
      else if e = 0x66 then Some 0x0C
      else if e = 0x6E then Some 0x0A
      else if e = 0x72 then Some 0x0D
      else if e = 0x74 then Some 0x09
      else None)"

text \<open>
  The rest of a string literal, behind its opening quote: the characters read so far are
  in \<open>acc\<close> (last one first); the result is the string and the input behind the closing
  quote. A control character, an unknown escape or the end of the input is an error.
\<close>

fun lex_string :: "jsstring \<Rightarrow> jsstring \<Rightarrow> (jsstring \<times> jsstring) option" where
  "lex_string acc [] = None"
| "lex_string acc (c # cs) =
     (if c = 0x22 then Some (rev acc, cs)
      else if c = 0x5C then
        (case cs of
           [] \<Rightarrow> None
         | e # cs1 \<Rightarrow>
             if e = 0x75 then
               (case cs1 of
                  h1 # h2 # h3 # h4 # cs2 \<Rightarrow>
                    (case (hex_val h1, hex_val h2, hex_val h3, hex_val h4) of
                       (Some d1, Some d2, Some d3, Some d4) \<Rightarrow>
                         lex_string (of_nat (((d1 * 16 + d2) * 16 + d3) * 16 + d4) # acc) cs2
                     | _ \<Rightarrow> None)
                | _ \<Rightarrow> None)
             else
               (case simple_escape e of
                  None \<Rightarrow> None
                | Some x \<Rightarrow> lex_string (x # acc) cs1))
      else if c < 0x20 then None
      else lex_string (c # acc) cs)"

text \<open>The value of a run of decimal digits.\<close>

definition digits_val :: "jsstring \<Rightarrow> nat" where
  "digits_val ds = foldl (\<lambda>a d. 10 * a + (unat d - 0x30)) 0 ds"

text \<open>
  A number literal: \<open>-? (0 | [1-9][0-9]*) (. [0-9]+)? ([eE] [+-]? [0-9]+)?\<close>. The result
  is its value and the input behind it.
\<close>

definition lex_fraction :: "jsstring \<Rightarrow> (jsstring \<times> jsstring) option" where
  "lex_fraction s =
     (case s of
        c # cs \<Rightarrow>
          if c = 0x2E then
            (if takeWhile is_digit cs = [] then None
             else Some (takeWhile is_digit cs, dropWhile is_digit cs))
          else Some ([], s)
      | [] \<Rightarrow> Some ([], s))"

definition lex_exponent :: "jsstring \<Rightarrow> (int \<times> jsstring) option" where
  "lex_exponent s =
     (case s of
        c # cs \<Rightarrow>
          if c = 0x65 \<or> c = 0x45 then
            (let (neg, ds) =
               (case cs of
                  d # cs1 \<Rightarrow> if d = 0x2D then (True, cs1)
                             else if d = 0x2B then (False, cs1) else (False, cs)
                | [] \<Rightarrow> (False, cs))
             in if takeWhile is_digit ds = [] then None
                else Some ((if neg then - int (digits_val (takeWhile is_digit ds))
                            else int (digits_val (takeWhile is_digit ds))),
                           dropWhile is_digit ds))
          else Some (0, s)
      | [] \<Rightarrow> Some (0, s))"

definition lex_integer :: "jsstring \<Rightarrow> (jsstring \<times> jsstring) option" where
  "lex_integer s =
     (case s of
        c # cs \<Rightarrow>
          if c = 0x30 then Some ([c], cs)
          else if is_digit c then Some (takeWhile is_digit s, dropWhile is_digit s)
          else None
      | [] \<Rightarrow> None)"

definition decimal :: "bool \<Rightarrow> nat \<Rightarrow> int \<Rightarrow> rat" where
  "decimal neg m e =
     (if neg then - 1 else 1) * of_nat m *
     (if 0 \<le> e then 10 ^ nat e else 1 / 10 ^ nat (- e))"

definition lex_number :: "jsstring \<Rightarrow> (rat \<times> jsstring) option" where
  "lex_number s =
     (let (neg, s1) = (case s of c # cs \<Rightarrow> if c = 0x2D then (True, cs) else (False, s)
                               | [] \<Rightarrow> (False, s))
      in case lex_integer s1 of
           None \<Rightarrow> None
         | Some (ip, s2) \<Rightarrow>
             (case lex_fraction s2 of
                None \<Rightarrow> None
              | Some (fp, s3) \<Rightarrow>
                  (case lex_exponent s3 of
                     None \<Rightarrow> None
                   | Some (ex, s4) \<Rightarrow>
                       Some (decimal neg (digits_val (ip @ fp)) (ex - int (length fp)), s4))))"

lemma lex_string_shorter:
  "lex_string acc cs = Some (s, rest) \<Longrightarrow> length rest < length cs"
proof (induction cs arbitrary: acc rule: length_induct)
  case (1 xs)
  note IH = "1.IH" [rule_format]
  from "1.prems" obtain c cs where xs: "xs = c # cs"
    by (cases xs) auto
  show ?case
  proof (cases "c = 0x22")
    case True
    with "1.prems" xs show ?thesis by simp
  next
    case nq: False
    show ?thesis
    proof (cases "c = 0x5C")
      case False
      with nq "1.prems" xs have "lex_string (c # acc) cs = Some (s, rest)"
        by (simp split: if_splits)
      then have "length rest < length cs"
        by (rule IH [rotated]) (simp add: xs)
      with xs show ?thesis by simp
    next
      case bs: True
      with "1.prems" xs obtain e cs1 where cs: "cs = e # cs1"
        by (cases cs) auto
      show ?thesis
      proof (cases "e = 0x75")
        case False
        with "1.prems" xs nq bs cs obtain x where
          "lex_string (x # acc) cs1 = Some (s, rest)"
          by (auto split: option.splits)
        then have "length rest < length cs1"
          by (rule IH [rotated]) (simp add: xs cs)
        with xs cs show ?thesis by simp
      next
        case True
        with "1.prems" xs nq bs cs obtain h1 h2 h3 h4 cs2 u where
          h: "cs1 = h1 # h2 # h3 # h4 # cs2"
             "lex_string (u # acc) cs2 = Some (s, rest)"
          by (auto split: list.splits option.splits)
        from h(2) have "length rest < length cs2"
          by (rule IH [rotated]) (simp add: xs cs h(1))
        with xs cs h(1) show ?thesis by simp
      qed
    qed
  qed
qed

lemma lex_integer_shorter:
  "lex_integer s = Some (ip, rest) \<Longrightarrow> length rest < length s"
  by (auto simp: lex_integer_def less_Suc_eq_le length_dropWhile_le
           split: list.splits if_splits)

lemma lex_fraction_shorter:
  "lex_fraction s = Some (fp, rest) \<Longrightarrow> length rest \<le> length s"
  by (auto simp: lex_fraction_def le_SucI length_dropWhile_le split: list.splits if_splits)

lemma lex_exponent_shorter:
  "lex_exponent s = Some (ex, rest) \<Longrightarrow> length rest \<le> length s"
proof -
  assume a: "lex_exponent s = Some (ex, rest)"
  have d: "\<And>xs. length (dropWhile is_digit xs) \<le> length xs"
    by (rule length_dropWhile_le)
  show ?thesis
  proof (cases s)
    case Nil
    with a show ?thesis by (simp add: lex_exponent_def)
  next
    case (Cons c cs)
    show ?thesis
    proof (cases "c = 0x65 \<or> c = 0x45")
      case False
      with a Cons show ?thesis by (simp add: lex_exponent_def)
    next
      case True
      define ds where "ds = (case cs of
                  d # cs1 \<Rightarrow> if d = 0x2D then cs1
                             else if d = 0x2B then cs1 else cs
                | [] \<Rightarrow> cs)"
      have l: "length ds \<le> length cs"
        by (simp add: ds_def split: list.splits)
      from a Cons True have "rest = dropWhile is_digit ds"
        by (auto simp: lex_exponent_def ds_def split: list.splits if_splits)
      with l d [of ds] Cons show ?thesis by simp
    qed
  qed
qed

lemma lex_number_shorter:
  assumes "lex_number s = Some (q, rest)"
  shows "length rest < length s"
proof -
  define s1 where "s1 = (case s of c # cs \<Rightarrow> if c = 0x2D then cs else s | [] \<Rightarrow> s)"
  have l1: "length s1 \<le> length s"
    by (simp add: s1_def split: list.splits)
  from assms obtain ip s2 fp s3 ex where
    "lex_integer s1 = Some (ip, s2)" "lex_fraction s2 = Some (fp, s3)"
    "lex_exponent s3 = Some (ex, rest)"
    by (auto simp: lex_number_def s1_def split: option.splits list.splits if_splits)
  then have "length s2 < length s1" "length s3 \<le> length s2" "length rest \<le> length s3"
    by (auto dest: lex_integer_shorter lex_fraction_shorter lex_exponent_shorter)
  with l1 show ?thesis by linarith
qed

text \<open>
  The tokens of a text, or \<open>None\<close> where a character belongs to no token. Between
  tokens only TAB, LF, CR and SP are skipped.
\<close>

function lex :: "jsstring \<Rightarrow> token list option" where
  "lex [] = Some []"
| "lex (c # cs) =
     (if is_json_space c then lex cs
      else if c = 0x7B then map_option (Cons LBrace) (lex cs)
      else if c = 0x7D then map_option (Cons RBrace) (lex cs)
      else if c = 0x5B then map_option (Cons LBracket) (lex cs)
      else if c = 0x5D then map_option (Cons RBracket) (lex cs)
      else if c = 0x3A then map_option (Cons Colon) (lex cs)
      else if c = 0x2C then map_option (Cons Comma) (lex cs)
      else if c = 0x22 then
        (case lex_string [] cs of
           None \<Rightarrow> None
         | Some (s, rest) \<Rightarrow> map_option (Cons (TString s)) (lex rest))
      else if c = 0x2D \<or> is_digit c then
        (case lex_number (c # cs) of
           None \<Rightarrow> None
         | Some (q, rest) \<Rightarrow> map_option (Cons (TNumber q)) (lex rest))
      else if starts_with (js ''true'') (c # cs) then map_option (Cons TTrue) (lex (drop 3 cs))
      else if starts_with (js ''false'') (c # cs) then map_option (Cons TFalse) (lex (drop 4 cs))
      else if starts_with (js ''null'') (c # cs) then map_option (Cons TNull) (lex (drop 3 cs))
      else None)"
  by pat_completeness auto
termination
proof (relation "measure length")
  fix c cs x2 s rest
  assume "lex_string [] cs = Some x2" "(s, rest) = x2"
  then show "(rest, c # cs) \<in> measure length"
    by (auto dest: lex_string_shorter)
next
  fix c cs x2 q rest
  assume "lex_number (c # cs) = Some x2" "(q, rest) = x2"
  then show "(rest, c # cs) \<in> measure length"
    by (auto dest: lex_number_shorter)
qed auto

subsection \<open>The grammar\<close>

text \<open>
  The parser reads the tokens from left to right and keeps the containers that are
  still open: an array with the elements read so far (last one first), or an object
  with the properties defined so far and the key whose value is being read.
\<close>

datatype ctx =
    CArr "json list"
  | CObj "(jsstring \<times> json) list" jsstring

datatype pstate =
    PValue "ctx list"
  | PArrStart "ctx list"
  | PObjStart "ctx list"
  | PKey "(jsstring \<times> json) list" "ctx list"
  | PColon "(jsstring \<times> json) list" jsstring "ctx list"
  | PDone json "ctx list"

text \<open>A value is expected, inside the open containers \<open>st\<close>.\<close>

fun value_step :: "ctx list \<Rightarrow> token \<Rightarrow> pstate option" where
  "value_step st LBracket = Some (PArrStart st)"
| "value_step st LBrace = Some (PObjStart st)"
| "value_step st (TString s) = Some (PDone (JString s) st)"
| "value_step st (TNumber q) = Some (PDone (JNumber q) st)"
| "value_step st TTrue = Some (PDone (JBool True) st)"
| "value_step st TFalse = Some (PDone (JBool False) st)"
| "value_step st TNull = Some (PDone JNull st)"
| "value_step st _ = None"

fun step :: "pstate \<Rightarrow> token \<Rightarrow> pstate option" where
  "step (PValue st) t = value_step st t"
| "step (PArrStart st) RBracket = Some (PDone (JArray []) st)"
| "step (PArrStart st) t = value_step (CArr [] # st) t"
| "step (PObjStart st) RBrace = Some (PDone (JObject []) st)"
| "step (PObjStart st) (TString k) = Some (PColon [] k st)"
| "step (PObjStart st) _ = None"
| "step (PKey ms st) (TString k) = Some (PColon ms k st)"
| "step (PKey ms st) _ = None"
| "step (PColon ms k st) Colon = Some (PValue (CObj ms k # st))"
| "step (PColon ms k st) _ = None"
| "step (PDone v []) _ = None"
| "step (PDone v (CArr es # st)) Comma = Some (PValue (CArr (v # es) # st))"
| "step (PDone v (CArr es # st)) RBracket = Some (PDone (JArray (rev (v # es))) st)"
| "step (PDone v (CArr es # st)) _ = None"
| "step (PDone v (CObj ms k # st)) Comma = Some (PKey (set_prop k v ms) st)"
| "step (PDone v (CObj ms k # st)) RBrace = Some (PDone (JObject (set_prop k v ms)) st)"
| "step (PDone v (CObj ms k # st)) _ = None"

fun run :: "pstate \<Rightarrow> token list \<Rightarrow> json option" where
  "run (PDone v []) [] = Some v"
| "run p [] = None"
| "run p (t # ts) = (case step p t of None \<Rightarrow> None | Some p' \<Rightarrow> run p' ts)"

text \<open>\<open>JSON.parse(text)\<close>: the value, or \<open>None\<close> where it throws a SyntaxError.\<close>

definition JSON_parse :: "jsstring \<Rightarrow> json option" where
  "JSON_parse text = (case lex text of None \<Rightarrow> None | Some ts \<Rightarrow> run (PValue []) ts)"

section \<open>The service\<close>

subsection \<open>Data\<close>

text \<open>
  A \<open>File\<close> or \<open>Blob\<close>: the source reads its properties \<open>type\<close> and \<open>size\<close>; the
  bytes themselves are only reached through a \<open>FileReader\<close>, and \<open>blob_id\<close> stands for
  them.
\<close>

record blob =
  blob_id :: nat
  type_blob :: jsstring
  size_blob :: nat

text \<open>The client object that \<open>initialize\<close> stores in the static field \<open>ai\<close>.\<close>

datatype GoogleGenAI = GoogleGenAI (apiKey: jsstring)

text \<open>The static state of the class: \<open>ai\<close> is undefined until \<open>initialize\<close> has run.\<close>

record service =
  ai :: "GoogleGenAI option"

text \<open>
  What can be thrown: an \<open>Error\<close> made by the service itself, with its message; the
  SyntaxError of \<open>JSON.parse\<close>; the event that a failing \<open>FileReader\<close> rejects with; the
  rejections of \<open>fetch\<close> and \<open>response.blob()\<close> and those of \<open>generateContent\<close>.
\<close>

datatype error =
    Error jsstring
  | SyntaxError
  | ReaderError
  | FetchError jsstring
  | RemoteError jsstring

text \<open>The response schema sent along with a request.\<close>

datatype schema =
    SObject "(jsstring \<times> schema) list" "jsstring list"
  | SArray schema "jsstring option"
  | SNumber "jsstring option"
  | SString

record inline_data =
  mimeType :: jsstring
  data :: "jsstring option"

record request =
  model :: jsstring
  text_part :: jsstring
  inlineData :: inline_data
  responseMimeType :: jsstring
  responseSchema :: schema

record response =
  ok :: bool
  status :: nat
  blob_body :: "jsstring + blob"

text \<open>
  Everything outside the service: what \<open>fetch\<close> answers for a URL (a rejection or a
  response, whose \<open>blob()\<close> may reject in turn), what a \<open>FileReader\<close> reads from a blob
  (\<open>None\<close>: its \<open>onerror\<close> fires) and what the remote model answers to a request (a
  rejection or the text of the response).
\<close>

record world =
  fetch :: "jsstring \<Rightarrow> jsstring + response"
  readAsDataURL :: "blob \<Rightarrow> jsstring option"
  generateContent :: "GoogleGenAI \<Rightarrow> request \<Rightarrow> jsstring + jsstring"

text \<open>
  The effects of a call, in the order they happen: the two kinds of network request and
  the lines written with \<open>console.error\<close>.
\<close>

datatype log_arg = LText jsstring | LError error

datatype event =
    Fetch jsstring
  | GenerateContent GoogleGenAI request
  | ConsoleError jsstring log_arg

text \<open>A call ends with a thrown error (\<open>Inl\<close>) or a value, and leaves a trace.\<close>

type_synonym 'a outcome = "(error + 'a) \<times> event list"

fun is_network :: "event \<Rightarrow> bool" where
  "is_network (Fetch url) = True"
| "is_network (GenerateContent c r) = True"
| "is_network (ConsoleError l a) = False"

fun is_inference :: "event \<Rightarrow> bool" where
  "is_inference (GenerateContent c r) = True"
| "is_inference _ = False"

definition network_activity :: "event list \<Rightarrow> event list" where
  "network_activity tr = filter is_network tr"

definition inference_calls :: "event list \<Rightarrow> event list" where
  "inference_calls tr = filter is_inference tr"

subsection \<open>Operations\<close>

definition initialize :: "jsstring \<Rightarrow> service \<Rightarrow> service" where
  "initialize key s = s\<lparr>ai := Some (GoogleGenAI key)\<rparr>"

text \<open>
  \<open>fileToBase64\<close>: the data URL that the reader produces is cut at its commas and the
  second piece is taken, which is undefined (\<open>None\<close>) where there is no comma.
\<close>

definition fileToBase64 :: "world \<Rightarrow> blob \<Rightarrow> error + jsstring option" where
  "fileToBase64 w file =
     (case readAsDataURL w file of
        None \<Rightarrow> Inl ReaderError
      | Some result \<Rightarrow>
          Inr (case split 0x2C result of
                 p0 # base64Data # ps \<Rightarrow> Some base64Data
               | _ \<Rightarrow> None))"

text \<open>\<open>getAnalysisPrompt\<close>, a static method: \<open>s\<close> is the class it is called on.\<close>

definition getAnalysisPrompt :: "service \<Rightarrow> jsstring" where
  "getAnalysisPrompt s = js (concat [
      ''\<newline>'',
      ''      Analyze this resume PDF and provide detailed feedback in the specified JSON format.\<newline>'',
      ''      \<newline>'',
      ''      As a professional career coach with 10+ years experience, evaluate:\<newline>'',
      ''      \<newline>'',
      ''      1. CONTENT QUALITY:\<newline>'',
      ''      - Relevance to modern hiring practices\<newline>'',
      ''      - Clarity and impact of professional summary\<newline>'',
      ''      - Effectiveness of work experience descriptions\<newline>'',
      ''      \<newline>'',
      ''      2. ACHIEVEMENTS:\<newline>'',
      ''      - Use of action verbs and power words\<newline>'',
      ''      - Quantifiable results and metrics\<newline>'',
      ''      - Demonstrated impact in roles\<newline>'',
      ''      \<newline>'',
      ''      3. TECHNICAL PRESENTATION:\<newline>'',
      ''      - Skills section organization\<newline>'',
      ''      - Technical proficiency demonstration\<newline>'',
      ''      - Certifications and education\<newline>'',
      ''      \<newline>'',
      ''      4. DESIGN & FORMATTING:\<newline>'',
      ''      - Visual hierarchy and readability\<newline>'',
      ''      - Consistency in styling\<newline>'',
      ''      - ATS (Applicant Tracking System) compatibility\<newline>'',
      ''      \<newline>'',
      ''      5. OVERALL EFFECTIVENESS:\<newline>'',
      ''      - Strength for target industry/role\<newline>'',
      ''      - Competitive edge\<newline>'',
      ''      - Areas needing improvement\<newline>'',
      ''      \<newline>'',
      ''      Provide specific, actionable suggestions.\<newline>'',
      ''      Highlight 3-5 key strengths.\<newline>'',
      ''      Be professional but constructive.\<newline>'',
      ''      \<newline>'',
      ''      Return ONLY the JSON object in the specified format.\<newline>'',
      ''    ''
    ])"

definition responseSchema_literal :: schema where
  "responseSchema_literal =
     SObject
       [(js ''score'', SNumber (Some (js ''Overall resume quality score (0-100)''))),
        (js ''improvements'',
           SArray (SObject [(js ''category'', SString), (js ''suggestion'', SString)] [])
                  (Some (js ''List of suggested improvements''))),
        (js ''strengths'', SArray SString (Some (js ''List of resume strengths'')))]
       [js ''score'', js ''improvements'', js ''strengths'']"

text \<open>The argument of \<open>generateContent\<close> in \<open>analyzeWithGemini\<close>.\<close>

definition analysis_request :: "service \<Rightarrow> blob \<Rightarrow> jsstring option \<Rightarrow> request" where
  "analysis_request s file base64Data =
     \<lparr>model = js ''gemini-2.5-flash'',
      text_part = getAnalysisPrompt s,
      inlineData = \<lparr>mimeType = type_blob file, data = base64Data\<rparr>,
      responseMimeType = js ''application/json'',
      responseSchema = responseSchema_literal\<rparr>"

text \<open>
  \<open>result?.key\<close> for the three keys the source reads, none of which is a property of a
  primitive value or of an array: undefined (\<open>None\<close>) unless \<open>result\<close> is an object that
  has the key.
\<close>

fun get_prop :: "json \<Rightarrow> jsstring \<Rightarrow> json option" where
  "get_prop (JObject ms) k = map_of ms k"
| "get_prop _ k = None"

text \<open>\<open>typeof v === 'number'\<close> and \<open>Array.isArray(v)\<close>, for a value that may be undefined.\<close>

fun typeof_number :: "json option \<Rightarrow> bool" where
  "typeof_number (Some (JNumber q)) = True"
| "typeof_number _ = False"

fun isArray :: "json option \<Rightarrow> bool" where
  "isArray (Some (JArray vs)) = True"
| "isArray _ = False"

text \<open>The first statement of \<open>processResponse\<close>: the text without its code fences.\<close>

definition jsonString :: "jsstring \<Rightarrow> jsstring" where
  "jsonString text = trim (remove_all (js ''```'') (remove_all (js ''```json'') text))"

text \<open>The body of the \<open>try\<close> block of \<open>processResponse\<close>.\<close>

definition processResponse_try :: "jsstring \<Rightarrow> error + json" where
  "processResponse_try text =
     (case JSON_parse (jsonString text) of
        None \<Rightarrow> Inl SyntaxError
      | Some result \<Rightarrow>
          if \<not> typeof_number (get_prop result (js ''score''))
             \<or> \<not> isArray (get_prop result (js ''improvements''))
             \<or> \<not> isArray (get_prop result (js ''strengths''))
          then Inl (Error (js ''Invalid response structure''))
          else Inr result)"

text \<open>
  \<open>processResponse\<close>: whatever the \<open>try\<close> block throws is caught; the handler writes the
  raw text to the console and throws an error of its own.
\<close>

definition processResponse :: "jsstring \<Rightarrow> json outcome" where
  "processResponse text =
     (case processResponse_try text of
        Inr result \<Rightarrow> (Inr result, [])
      | Inl e \<Rightarrow>
          (Inl (Error (js ''Failed to parse analysis results'')),
           [ConsoleError (js ''Failed to process response:'') (LText text)]))"

definition analyzeWithGemini :: "world \<Rightarrow> service \<Rightarrow> blob \<Rightarrow> json outcome" where
  "analyzeWithGemini w s file =
     (case ai s of
        None \<Rightarrow>
          (Inl (Error (js ''Service not initialized. Call ResumeService.initialize() first.'')), [])
      | Some client \<Rightarrow>
          (case fileToBase64 w file of
             Inl e \<Rightarrow> (Inl e, [])
           | Inr base64Data \<Rightarrow>
               (case generateContent w client (analysis_request s file base64Data) of
                  Inl reason \<Rightarrow>
                    (Inl (RemoteError reason),
                     [GenerateContent client (analysis_request s file base64Data)])
                | Inr text \<Rightarrow>
                    (fst (processResponse text),
                     GenerateContent client (analysis_request s file base64Data)
                       # snd (processResponse text)))))"

text \<open>
  The handler that both entry points put around their body: the error is written to the
  console and thrown again.
\<close>

definition log_and_rethrow :: "jsstring \<Rightarrow> json outcome \<Rightarrow> json outcome" where
  "log_and_rethrow label r =
     (case fst r of
        Inl e \<Rightarrow> (Inl e, snd r @ [ConsoleError label (LError e)])
      | Inr v \<Rightarrow> r)"

definition analyzeResume :: "world \<Rightarrow> service \<Rightarrow> blob \<Rightarrow> json outcome" where
  "analyzeResume w s file =
     log_and_rethrow (js ''Resume analysis failed:'')
       (if type_blob file \<noteq> js ''application/pdf''
        then (Inl (Error (js ''Only PDF files are supported'')), [])
        else if size_blob file > 4 * 1024 * 1024
        then (Inl (Error (js ''File size must be less than 4MB'')), [])
        else analyzeWithGemini w s file)"

definition analyzeResumeFromUrl :: "world \<Rightarrow> service \<Rightarrow> jsstring \<Rightarrow> json outcome" where
  "analyzeResumeFromUrl w s url =
     log_and_rethrow (js ''URL analysis failed:'')
       (case fetch w url of
          Inl reason \<Rightarrow> (Inl (FetchError reason), [Fetch url])
        | Inr response \<Rightarrow>
            if \<not> ok response
            then (Inl (Error (js ''Failed to fetch PDF: '' @ to_dec (status response))), [Fetch url])
            else
              (case blob_body response of
                 Inl reason \<Rightarrow> (Inl (FetchError reason), [Fetch url])
               | Inr blob \<Rightarrow>
                   if type_blob blob \<noteq> js ''application/pdf''
                   then (Inl (Error (js ''URL does not point to a PDF file'')), [Fetch url])
                   else (fst (analyzeWithGemini w s blob),
                         Fetch url # snd (analyzeWithGemini w s blob))))"

subsection \<open>The errors of the specification\<close>

text \<open>
  The specification names the failures; the source tells them apart by the message of
  the \<open>Error\<close> it throws. These are the errors the source makes for each name.
\<close>

definition NotInitialized :: error where
  "NotInitialized = Error (js ''Service not initialized. Call ResumeService.initialize() first.'')"

definition UnsupportedMediaType :: error where
  "UnsupportedMediaType = Error (js ''Only PDF files are supported'')"

definition PayloadTooLarge :: error where
  "PayloadTooLarge = Error (js ''File size must be less than 4MB'')"

definition FetchFailure :: "nat \<Rightarrow> error" where
  "FetchFailure code = Error (js ''Failed to fetch PDF: '' @ to_dec code)"

definition MalformedResponse :: error where
  "MalformedResponse = Error (js ''Failed to parse analysis results'')"

definition SchemaViolation :: error where
  "SchemaViolation = Error (js ''Invalid response structure'')"

subsection \<open>The invariant of a result\<close>

text \<open>What \<open>processResponse\<close> checks of a parsed value before it returns it.\<close>

definition checked_shape :: "json \<Rightarrow> bool" where
  "checked_shape r \<longleftrightarrow>
     typeof_number (get_prop r (js ''score''))
     \<and> isArray (get_prop r (js ''improvements''))
     \<and> isArray (get_prop r (js ''strengths''))"

text \<open>
  The invariant of an AnalysisResult as the specification words it: the score is a
  number from 0 to 100, and \<open>improvements\<close> and \<open>strengths\<close> are present as sequences.
\<close>

fun score_in_range :: "json option \<Rightarrow> bool" where
  "score_in_range (Some (JNumber q)) = (0 \<le> q \<and> q \<le> 100)"
| "score_in_range _ = False"

definition AnalysisResult_invariant :: "json \<Rightarrow> bool" where
  "AnalysisResult_invariant r \<longleftrightarrow>
     score_in_range (get_prop r (js ''score''))
     \<and> isArray (get_prop r (js ''improvements''))
     \<and> isArray (get_prop r (js ''strengths''))"

section \<open>Example inputs\<close>

text \<open>Documents: a text file, a PDF of 5 MiB and a PDF of exactly 4 MiB.\<close>

definition example_txt :: blob where
  "example_txt = \<lparr>blob_id = 1, type_blob = js ''text/plain'', size_blob = 12\<rparr>"

definition example_pdf_5MiB :: blob where
  "example_pdf_5MiB =
     \<lparr>blob_id = 2, type_blob = js ''application/pdf'', size_blob = 5 * 1024 * 1024\<rparr>"

definition example_pdf_4MiB :: blob where
  "example_pdf_4MiB =
     \<lparr>blob_id = 3, type_blob = js ''application/pdf'', size_blob = 4 * 1024 * 1024\<rparr>"

definition example_html :: blob where
  "example_html = \<lparr>blob_id = 4, type_blob = js ''text/html'', size_blob = 300\<rparr>"

text \<open>A service before and after \<open>initialize\<close>.\<close>

definition service_fresh :: service where
  "service_fresh = \<lparr>ai = None\<rparr>"

definition service_ready :: service where
  "service_ready = initialize (js ''key'') service_fresh"

text \<open>
  A world: \<open>/missing\<close> answers 404, \<open>/page\<close> serves an HTML page, every other URL serves
  the PDF of 5 MiB; every blob can be read; the model answers with a well-formed result.
\<close>

definition example_answer :: jsstring where
  "example_answer = js ''{\"score\":82,\"improvements\":[],\"strengths\":[\"Clear formatting\"]}''"

definition example_fetch :: "jsstring \<Rightarrow> jsstring + response" where
  "example_fetch url =
     (if url = js ''/missing''
      then Inr \<lparr>ok = False, status = 404, blob_body = Inr example_html\<rparr>
      else if url = js ''/page''
      then Inr \<lparr>ok = True, status = 200, blob_body = Inr example_html\<rparr>
      else Inr \<lparr>ok = True, status = 200, blob_body = Inr example_pdf_5MiB\<rparr>)"

definition example_read :: "blob \<Rightarrow> jsstring option" where
  "example_read b = Some (js ''data:'' @ type_blob b @ js '';base64,JVBERi0='')"

definition example_generate :: "GoogleGenAI \<Rightarrow> request \<Rightarrow> jsstring + jsstring" where
  "example_generate c r = Inr example_answer"

definition example_world :: world where
  "example_world =
     \<lparr>fetch = example_fetch, readAsDataURL = example_read, generateContent = example_generate\<rparr>"

section \<open>Properties\<close>

subsection \<open>Auxiliary facts\<close>

lemma analyzeWithGemini_fresh:
  "ai s = None \<Longrightarrow> analyzeWithGemini w s file = (Inl NotInitialized, [])"
  by (simp add: analyzeWithGemini_def NotInitialized_def)

lemma processResponse_error:
  "fst (processResponse text) = Inl e \<Longrightarrow> e = MalformedResponse"
  by (auto simp: processResponse_def MalformedResponse_def split: sum.splits)

lemma processResponse_no_network:
  "filter is_network (snd (processResponse text)) = []"
  "filter is_inference (snd (processResponse text)) = []"
  by (simp_all add: processResponse_def split: sum.splits)

lemma analyzeWithGemini_error:
  assumes "fst (analyzeWithGemini w s file) = Inl e"
  shows "e = NotInitialized \<or> e = ReaderError \<or> (\<exists>reason. e = RemoteError reason)
         \<or> e = MalformedResponse"
proof (cases "ai s")
  case None
  with assms show ?thesis by (simp add: analyzeWithGemini_fresh)
next
  case (Some client)
  show ?thesis
  proof (cases "fileToBase64 w file")
    case (Inl e')
    with Some assms have "e = e'" by (simp add: analyzeWithGemini_def)
    moreover from Inl have "e' = ReaderError"
      by (auto simp: fileToBase64_def split: option.splits)
    ultimately show ?thesis by simp
  next
    case (Inr d)
    show ?thesis
    proof (cases "generateContent w client (analysis_request s file d)")
      case (Inl reason)
      with Some Inr assms show ?thesis by (auto simp: analyzeWithGemini_def)
    next
      case answer: (Inr raw)
      with Some Inr assms have "fst (processResponse raw) = Inl e"
        by (simp add: analyzeWithGemini_def)
      then show ?thesis by (simp add: processResponse_error)
    qed
  qed
qed

lemma PayloadTooLarge_distinct:
  "PayloadTooLarge \<noteq> NotInitialized" "PayloadTooLarge \<noteq> ReaderError"
  "PayloadTooLarge \<noteq> RemoteError reason" "PayloadTooLarge \<noteq> MalformedResponse"
  by (simp_all add: PayloadTooLarge_def NotInitialized_def MalformedResponse_def js_def)

lemma analyzeWithGemini_not_too_large:
  "fst (analyzeWithGemini w s file) \<noteq> Inl PayloadTooLarge"
  using analyzeWithGemini_error [where e = PayloadTooLarge] PayloadTooLarge_distinct
  by blast

lemma analyzeWithGemini_no_fetch:
  "filter is_network (snd (analyzeWithGemini w s file)) =
   filter is_inference (snd (analyzeWithGemini w s file))"
  by (simp add: analyzeWithGemini_def processResponse_no_network
           split: option.splits sum.splits)

lemma analyzeWithGemini_calls:
  assumes "ai s = Some client" "fileToBase64 w file = Inr d"
  shows "filter is_inference (snd (analyzeWithGemini w s file)) =
         [GenerateContent client (analysis_request s file d)]"
  using assms
  by (simp add: analyzeWithGemini_def processResponse_no_network split: sum.splits)

lemma log_and_rethrow_fst: "fst (log_and_rethrow label r) = fst r"
  by (simp add: log_and_rethrow_def split: sum.splits)

lemma log_and_rethrow_network:
  "filter is_network (snd (log_and_rethrow label r)) = filter is_network (snd r)"
  "filter is_inference (snd (log_and_rethrow label r)) = filter is_inference (snd r)"
  by (simp_all add: log_and_rethrow_def split: sum.splits)

subsection \<open>Validation of the document\<close>

text \<open>
  Claim C2. For every document whose declared media type is not "application/pdf",
  \<open>analyzeResume\<close> fails with the UnsupportedMediaType error, and its trace holds no
  inference call and no other network request, whatever the world and the state of the
  service.
\<close>

theorem analyzeResume_rejects_non_pdf:
  assumes "type_blob file \<noteq> js ''application/pdf''"
  shows "fst (analyzeResume w s file) = Inl UnsupportedMediaType
         \<and> inference_calls (snd (analyzeResume w s file)) = []
         \<and> network_activity (snd (analyzeResume w s file)) = []"
  using assms
  by (simp add: analyzeResume_def log_and_rethrow_def UnsupportedMediaType_def
        inference_calls_def network_activity_def)

theorem analyzeResume_rejects_non_pdf_witness:
  "type_blob example_txt \<noteq> js ''application/pdf''
   \<and> fst (analyzeResume example_world service_ready example_txt) = Inl UnsupportedMediaType
   \<and> inference_calls (snd (analyzeResume example_world service_ready example_txt)) = []
   \<and> network_activity (snd (analyzeResume example_world service_ready example_txt)) = []"
proof -
  have h: "type_blob example_txt \<noteq> js ''application/pdf''"
    by (simp add: example_txt_def js_def)
  show ?thesis
    using h analyzeResume_rejects_non_pdf [OF h, where w = example_world and s = service_ready]
    by simp
qed

text \<open>
  Claim C3. A PDF document of more than 4 MiB (4 * 1024 * 1024 bytes) makes
  \<open>analyzeResume\<close> fail with the PayloadTooLarge error, with no inference call in the
  trace. A document of at most 4 MiB passes the size check: the call never ends with
  PayloadTooLarge, and for a PDF it ends as \<open>analyzeWithGemini\<close> ends on that document.
\<close>

theorem analyzeResume_size_limit:
  "(type_blob file = js ''application/pdf'' \<and> size_blob file > 4 * 1024 * 1024 \<longrightarrow>
      fst (analyzeResume w s file) = Inl PayloadTooLarge
      \<and> inference_calls (snd (analyzeResume w s file)) = [])
   \<and> (size_blob file \<le> 4 * 1024 * 1024 \<longrightarrow>
      fst (analyzeResume w s file) \<noteq> Inl PayloadTooLarge)
   \<and> (type_blob file = js ''application/pdf'' \<and> size_blob file \<le> 4 * 1024 * 1024 \<longrightarrow>
      fst (analyzeResume w s file) = fst (analyzeWithGemini w s file))"
proof (intro conjI impI)
  assume "type_blob file = js ''application/pdf'' \<and> size_blob file > 4 * 1024 * 1024"
  then show "fst (analyzeResume w s file) = Inl PayloadTooLarge"
    by (simp add: analyzeResume_def log_and_rethrow_def PayloadTooLarge_def)
next
  assume "type_blob file = js ''application/pdf'' \<and> size_blob file > 4 * 1024 * 1024"
  then show "inference_calls (snd (analyzeResume w s file)) = []"
    by (simp add: analyzeResume_def log_and_rethrow_def inference_calls_def)
next
  assume small: "size_blob file \<le> 4 * 1024 * 1024"
  show "fst (analyzeResume w s file) \<noteq> Inl PayloadTooLarge"
  proof (cases "type_blob file = js ''application/pdf''")
    case True
    with small have "fst (analyzeResume w s file) = fst (analyzeWithGemini w s file)"
      by (simp add: analyzeResume_def log_and_rethrow_fst)
    then show ?thesis
      by (simp add: analyzeWithGemini_not_too_large)
  next
    case False
    then have "fst (analyzeResume w s file) = Inl (Error (js ''Only PDF files are supported''))"
      by (simp add: analyzeResume_def log_and_rethrow_fst)
    then show ?thesis
      by (simp add: PayloadTooLarge_def js_def)
  qed
next
  assume "type_blob file = js ''application/pdf'' \<and> size_blob file \<le> 4 * 1024 * 1024"
  then show "fst (analyzeResume w s file) = fst (analyzeWithGemini w s file)"
    by (simp add: analyzeResume_def log_and_rethrow_fst)
qed

theorem analyzeResume_size_limit_witness:
  "type_blob example_pdf_5MiB = js ''application/pdf''
   \<and> size_blob example_pdf_5MiB > 4 * 1024 * 1024
   \<and> fst (analyzeResume example_world service_ready example_pdf_5MiB) = Inl PayloadTooLarge
   \<and> inference_calls (snd (analyzeResume example_world service_ready example_pdf_5MiB)) = []
   \<and> type_blob example_pdf_4MiB = js ''application/pdf''
   \<and> size_blob example_pdf_4MiB \<le> 4 * 1024 * 1024
   \<and> fst (analyzeResume example_world service_ready example_pdf_4MiB) \<noteq> Inl PayloadTooLarge
   \<and> fst (analyzeResume example_world service_ready example_pdf_4MiB)
       = fst (analyzeWithGemini example_world service_ready example_pdf_4MiB)"
proof -
  have t5: "type_blob example_pdf_5MiB = js ''application/pdf''"
    and s5: "size_blob example_pdf_5MiB > 4 * 1024 * 1024"
    by (simp_all add: example_pdf_5MiB_def)
  have t4: "type_blob example_pdf_4MiB = js ''application/pdf''"
    and s4: "size_blob example_pdf_4MiB \<le> 4 * 1024 * 1024"
    by (simp_all add: example_pdf_4MiB_def)
  show ?thesis
    using t5 s5 t4 s4
      analyzeResume_size_limit [of example_pdf_5MiB example_world service_ready]
      analyzeResume_size_limit [of example_pdf_4MiB example_world service_ready]
    by blast
qed

subsection \<open>A service that has not been initialized\<close>

text \<open>
  Claim C1, as the source has it. The document is validated before the client is looked
  at. So before \<open>initialize\<close>, \<open>analyzeResume\<close> never causes network activity; it fails with
  the NotInitialized error on every document that passes the two checks (a PDF of at
  most 4 MiB), with UnsupportedMediaType on every document that is not a PDF, and with
  PayloadTooLarge on every PDF above 4 MiB. \<open>analyzeWithGemini\<close> itself fails with
  NotInitialized on every document, with an empty trace.
\<close>

theorem analyzeResume_before_initialize:
  assumes "ai s = None"
  shows "network_activity (snd (analyzeResume w s file)) = []
         \<and> analyzeWithGemini w s file = (Inl NotInitialized, [])
         \<and> (type_blob file = js ''application/pdf'' \<and> size_blob file \<le> 4 * 1024 * 1024 \<longrightarrow>
              fst (analyzeResume w s file) = Inl NotInitialized)
         \<and> (type_blob file \<noteq> js ''application/pdf'' \<longrightarrow>
              fst (analyzeResume w s file) = Inl UnsupportedMediaType)
         \<and> (type_blob file = js ''application/pdf'' \<and> size_blob file > 4 * 1024 * 1024 \<longrightarrow>
              fst (analyzeResume w s file) = Inl PayloadTooLarge)"
  using assms
  by (simp add: analyzeResume_def log_and_rethrow_def analyzeWithGemini_fresh
        network_activity_def UnsupportedMediaType_def PayloadTooLarge_def)

theorem analyzeResume_before_initialize_witness:
  "ai service_fresh = None
   \<and> network_activity (snd (analyzeResume example_world service_fresh example_pdf_4MiB)) = []
   \<and> fst (analyzeResume example_world service_fresh example_pdf_4MiB) = Inl NotInitialized
   \<and> fst (analyzeResume example_world service_fresh example_txt) = Inl UnsupportedMediaType
   \<and> fst (analyzeResume example_world service_fresh example_pdf_5MiB) = Inl PayloadTooLarge"
proof -
  have h: "ai service_fresh = None"
    by (simp add: service_fresh_def)
  have t4: "type_blob example_pdf_4MiB = js ''application/pdf''
            \<and> size_blob example_pdf_4MiB \<le> 4 * 1024 * 1024"
    by (simp add: example_pdf_4MiB_def)
  have t5: "type_blob example_pdf_5MiB = js ''application/pdf''
            \<and> size_blob example_pdf_5MiB > 4 * 1024 * 1024"
    by (simp add: example_pdf_5MiB_def)
  have tt: "type_blob example_txt \<noteq> js ''application/pdf''"
    by (simp add: example_txt_def js_def)
  show ?thesis
    using h t4 t5 tt
      analyzeResume_before_initialize [OF h, of example_world example_pdf_4MiB]
      analyzeResume_before_initialize [OF h, of example_world example_txt]
      analyzeResume_before_initialize [OF h, of example_world example_pdf_5MiB]
    by simp
qed

text \<open>
  The claim as it is worded fails: before \<open>initialize\<close>, a document that is not a PDF is
  answered with UnsupportedMediaType, which is another error than NotInitialized.
\<close>

theorem analyzeResume_before_initialize_counterexample:
  "ai service_fresh = None
   \<and> fst (analyzeResume example_world service_fresh example_txt) = Inl UnsupportedMediaType
   \<and> fst (analyzeResume example_world service_fresh example_txt) \<noteq> Inl NotInitialized"
  by (simp add: service_fresh_def analyzeResume_def log_and_rethrow_def example_txt_def
        UnsupportedMediaType_def NotInitialized_def js_def)

subsection \<open>The entry point for a URL\<close>

text \<open>
  Claim C9. When the fetch of the URL completes with a status that is not a success,
  \<open>analyzeResumeFromUrl\<close> fails with the FetchFailure error for that status and the trace
  holds no inference call. When the fetch succeeds and the fetched content declares a
  media type other than "application/pdf", it fails as well, again with no inference
  call.
\<close>

theorem analyzeResumeFromUrl_fails_early:
  assumes "fetch w url = Inr response"
  shows "(\<not> ok response \<longrightarrow>
            fst (analyzeResumeFromUrl w s url) = Inl (FetchFailure (status response))
            \<and> inference_calls (snd (analyzeResumeFromUrl w s url)) = [])
         \<and> (ok response \<and> blob_body response = Inr blob
             \<and> type_blob blob \<noteq> js ''application/pdf'' \<longrightarrow>
            fst (analyzeResumeFromUrl w s url) = Inl (Error (js ''URL does not point to a PDF file''))
            \<and> inference_calls (snd (analyzeResumeFromUrl w s url)) = [])"
  using assms
  by (simp add: analyzeResumeFromUrl_def log_and_rethrow_def FetchFailure_def
        inference_calls_def)

theorem analyzeResumeFromUrl_fails_early_witness:
  "fetch example_world (js ''/missing'')
     = Inr \<lparr>ok = False, status = 404, blob_body = Inr example_html\<rparr>
   \<and> fst (analyzeResumeFromUrl example_world service_ready (js ''/missing''))
       = Inl (FetchFailure 404)
   \<and> inference_calls (snd (analyzeResumeFromUrl example_world service_ready (js ''/missing''))) = []
   \<and> fetch example_world (js ''/page'')
       = Inr \<lparr>ok = True, status = 200, blob_body = Inr example_html\<rparr>
   \<and> type_blob example_html \<noteq> js ''application/pdf''
   \<and> fst (analyzeResumeFromUrl example_world service_ready (js ''/page''))
       = Inl (Error (js ''URL does not point to a PDF file''))
   \<and> inference_calls (snd (analyzeResumeFromUrl example_world service_ready (js ''/page''))) = []"
proof -
  have f1: "fetch example_world (js ''/missing'')
              = Inr \<lparr>ok = False, status = 404, blob_body = Inr example_html\<rparr>"
    by (simp add: example_world_def example_fetch_def)
  have f2: "fetch example_world (js ''/page'')
              = Inr \<lparr>ok = True, status = 200, blob_body = Inr example_html\<rparr>"
    by (simp add: example_world_def example_fetch_def js_def)
  have t: "type_blob example_html \<noteq> js ''application/pdf''"
    by (simp add: example_html_def js_def)
  show ?thesis
    using f1 f2 t
      analyzeResumeFromUrl_fails_early [OF f1, where s = service_ready]
      analyzeResumeFromUrl_fails_early [OF f2, where s = service_ready and blob = example_html]
    by simp
qed

text \<open>
  Claim C10. \<open>analyzeResumeFromUrl\<close> has no ceiling on the byte length: for every
  fetched blob of media type "application/pdf", whatever its size, the call goes on
  into \<open>analyzeWithGemini\<close> and ends as that ends, never with PayloadTooLarge; and once
  the service has a client and the blob has been read, the trace holds the inference
  call for that blob.
\<close>

theorem analyzeResumeFromUrl_no_size_limit:
  assumes "fetch w url = Inr response" "ok response" "blob_body response = Inr blob"
    and "type_blob blob = js ''application/pdf''"
  shows "fst (analyzeResumeFromUrl w s url) = fst (analyzeWithGemini w s blob)
         \<and> fst (analyzeResumeFromUrl w s url) \<noteq> Inl PayloadTooLarge
         \<and> (ai s = Some client \<and> fileToBase64 w blob = Inr d \<longrightarrow>
              inference_calls (snd (analyzeResumeFromUrl w s url))
                = [GenerateContent client (analysis_request s blob d)])"
proof -
  from assms have out: "analyzeResumeFromUrl w s url =
      log_and_rethrow (js ''URL analysis failed:'')
        (fst (analyzeWithGemini w s blob), Fetch url # snd (analyzeWithGemini w s blob))"
    by (simp add: analyzeResumeFromUrl_def)
  then have eq: "fst (analyzeResumeFromUrl w s url) = fst (analyzeWithGemini w s blob)"
    by (simp add: log_and_rethrow_fst)
  have calls: "inference_calls (snd (analyzeResumeFromUrl w s url))
                 = filter is_inference (snd (analyzeWithGemini w s blob))"
    by (simp add: out inference_calls_def log_and_rethrow_network)
  show ?thesis
    by (simp add: eq calls analyzeWithGemini_not_too_large analyzeWithGemini_calls)
qed

theorem analyzeResumeFromUrl_no_size_limit_witness:
  "fetch example_world (js ''/cv.pdf'')
     = Inr \<lparr>ok = True, status = 200, blob_body = Inr example_pdf_5MiB\<rparr>
   \<and> type_blob example_pdf_5MiB = js ''application/pdf''
   \<and> size_blob example_pdf_5MiB > 4 * 1024 * 1024
   \<and> ai service_ready = Some (GoogleGenAI (js ''key''))
   \<and> fileToBase64 example_world example_pdf_5MiB = Inr (Some (js ''JVBERi0=''))
   \<and> fst (analyzeResumeFromUrl example_world service_ready (js ''/cv.pdf''))
       = fst (analyzeWithGemini example_world service_ready example_pdf_5MiB)
   \<and> fst (analyzeResumeFromUrl example_world service_ready (js ''/cv.pdf'')) \<noteq> Inl PayloadTooLarge
   \<and> inference_calls (snd (analyzeResumeFromUrl example_world service_ready (js ''/cv.pdf'')))
       = [GenerateContent (GoogleGenAI (js ''key''))
            (analysis_request service_ready example_pdf_5MiB (Some (js ''JVBERi0='')))]"
proof -
  have f: "fetch example_world (js ''/cv.pdf'')
             = Inr \<lparr>ok = True, status = 200, blob_body = Inr example_pdf_5MiB\<rparr>"
    by (simp add: example_world_def example_fetch_def js_def)
  have t: "type_blob example_pdf_5MiB = js ''application/pdf''"
    and sz: "size_blob example_pdf_5MiB > 4 * 1024 * 1024"
    by (simp_all add: example_pdf_5MiB_def)
  have a: "ai service_ready = Some (GoogleGenAI (js ''key''))"
    by (simp add: service_ready_def service_fresh_def initialize_def)
  have r: "fileToBase64 example_world example_pdf_5MiB = Inr (Some (js ''JVBERi0=''))"
    by (simp add: fileToBase64_def example_world_def example_read_def example_pdf_5MiB_def js_def)
  have k: "ok \<lparr>ok = True, status = 200, blob_body = Inr example_pdf_5MiB\<rparr>"
    and b: "blob_body \<lparr>ok = True, status = 200, blob_body = Inr example_pdf_5MiB\<rparr>
              = Inr example_pdf_5MiB"
    by simp_all
  show ?thesis
    using f t sz a r
      analyzeResumeFromUrl_no_size_limit
        [OF f k b t, where s = service_ready and client = "GoogleGenAI (js ''key'')"
           and d = "Some (js ''JVBERi0='')"]
    by blast
qed

subsection \<open>The response of the model\<close>

lemma processResponse_result:
  assumes "fst (processResponse raw) = Inr r"
  shows "checked_shape r"
proof (cases "JSON_parse (jsonString raw)")
  case None
  with assms show ?thesis
    by (simp add: processResponse_def processResponse_try_def)
next
  case (Some result)
  with assms show ?thesis
    by (auto simp: processResponse_def processResponse_try_def checked_shape_def
             split: if_splits)
qed

lemma analyzeWithGemini_result:
  assumes "fst (analyzeWithGemini w s file) = Inr r"
  shows "\<exists>raw. fst (processResponse raw) = Inr r"
  using assms
  by (auto simp: analyzeWithGemini_def split: option.splits sum.splits)

lemma analyzeResume_result:
  assumes "fst (analyzeResume w s file) = Inr r"
  shows "\<exists>raw. fst (processResponse raw) = Inr r"
proof -
  from assms have "fst (analyzeWithGemini w s file) = Inr r"
    by (simp add: analyzeResume_def log_and_rethrow_fst split: if_splits)
  then show ?thesis by (rule analyzeWithGemini_result)
qed

lemma analyzeResumeFromUrl_result:
  assumes "fst (analyzeResumeFromUrl w s url) = Inr r"
  shows "\<exists>raw. fst (processResponse raw) = Inr r"
proof -
  from assms obtain blob where "fst (analyzeWithGemini w s blob) = Inr r"
    by (auto simp: analyzeResumeFromUrl_def log_and_rethrow_fst split: sum.splits if_splits)
  then show ?thesis by (rule analyzeWithGemini_result)
qed

text \<open>
  The structure check of \<open>processResponse\<close>: when the text without its fences parses
  and the parsed value has a \<open>score\<close> that is not a number, or \<open>improvements\<close> or
  \<open>strengths\<close> that is not an array, the \<open>try\<close> block throws the SchemaViolation error
  ("Invalid response structure").
\<close>

lemma processResponse_try_structure:
  assumes "JSON_parse (jsonString raw) = Some result"
    and "\<not> typeof_number (get_prop result (js ''score''))
         \<or> \<not> isArray (get_prop result (js ''improvements''))
         \<or> \<not> isArray (get_prop result (js ''strengths''))"
  shows "processResponse_try raw = Inl SchemaViolation"
  using assms
  by (auto simp: processResponse_try_def SchemaViolation_def)

text \<open>
  Claim C4. The claim asks that such an input is answered with the SchemaViolation
  error, an error distinct from the MalformedResponse of a parse failure. The source
  falls short of it: the \<open>throw\<close> of the structure check stands inside the \<open>try\<close> block,
  whose handler drops the error it catches and throws "Failed to parse analysis
  results" (the handlers of the two entry points throw the caught error again,
  unchanged). On the input of the specification whose score is the string "high" the
  text parses, and the caller gets the MalformedResponse error, the very error it gets
  on the unparseable \<open>not json\<close>, and not the SchemaViolation error.
\<close>

theorem processResponse_schema_violation_lost:
  "JSON_parse (jsonString (js ''{\"score\":\"high\",\"improvements\":[],\"strengths\":[]}''))
     = Some (JObject [(js ''score'', JString (js ''high'')),
                      (js ''improvements'', JArray []), (js ''strengths'', JArray [])])
   \<and> fst (processResponse (js ''{\"score\":\"high\",\"improvements\":[],\"strengths\":[]}'')) = Inl MalformedResponse
   \<and> fst (processResponse (js ''{\"score\":\"high\",\"improvements\":[],\"strengths\":[]}'')) = fst (processResponse (js ''not json''))
   \<and> fst (processResponse (js ''{\"score\":\"high\",\"improvements\":[],\"strengths\":[]}'')) \<noteq> Inl SchemaViolation"
  by code_simp

text \<open>
  Claim C5. When the text without its code fences does not parse as JSON,
  \<open>processResponse\<close> fails with the MalformedResponse error; the raw text goes to the
  console and is not the result.
\<close>

theorem processResponse_parse_failure:
  assumes "JSON_parse (jsonString raw) = None"
  shows "processResponse raw =
           (Inl MalformedResponse,
            [ConsoleError (js ''Failed to process response:'') (LText raw)])"
  using assms
  by (simp add: processResponse_def processResponse_try_def MalformedResponse_def)

theorem processResponse_parse_failure_witness:
  "JSON_parse (jsonString (js ''not json'')) = None
   \<and> processResponse (js ''not json'') =
       (Inl MalformedResponse,
        [ConsoleError (js ''Failed to process response:'') (LText (js ''not json''))])"
proof -
  have p: "JSON_parse (jsonString (js ''not json'')) = None"
    by code_simp
  show ?thesis
    using p processResponse_parse_failure [OF p] by blast
qed

text \<open>
  Claim C6. On the fenced input of the specification, the two fence markers and the
  line breaks around the object are removed, the rest parses to the object with score
  82, the one improvement and the one strength, and \<open>processResponse\<close> returns that
  very object and writes nothing to the console.
\<close>

theorem processResponse_fenced_example:
  "jsonString (js ''```json\<newline>{\"score\":82,\"improvements\":[{\"category\":\"Metrics\",\"suggestion\":\"Quantify impact\"}],\"strengths\":[\"Clear formatting\"]}\<newline>```'')
     = js ''{\"score\":82,\"improvements\":[{\"category\":\"Metrics\",\"suggestion\":\"Quantify impact\"}],\"strengths\":[\"Clear formatting\"]}''
   \<and> JSON_parse (js ''{\"score\":82,\"improvements\":[{\"category\":\"Metrics\",\"suggestion\":\"Quantify impact\"}],\"strengths\":[\"Clear formatting\"]}'')
     = Some (JObject
        [(js ''score'', JNumber 82),
         (js ''improvements'',
            JArray [JObject [(js ''category'', JString (js ''Metrics'')),
                             (js ''suggestion'', JString (js ''Quantify impact''))]]),
         (js ''strengths'', JArray [JString (js ''Clear formatting'')])])
   \<and> processResponse (js ''```json\<newline>{\"score\":82,\"improvements\":[{\"category\":\"Metrics\",\"suggestion\":\"Quantify impact\"}],\"strengths\":[\"Clear formatting\"]}\<newline>```'')
     = (Inr (JObject
        [(js ''score'', JNumber 82),
         (js ''improvements'',
            JArray [JObject [(js ''category'', JString (js ''Metrics'')),
                             (js ''suggestion'', JString (js ''Quantify impact''))]]),
         (js ''strengths'', JArray [JString (js ''Clear formatting'')])]),
      [])"
  by code_simp

text \<open>
  Claim C7, as the source has it. Every value that \<open>processResponse\<close> returns, and so
  every value that \<open>analyzeResume\<close> or \<open>analyzeResumeFromUrl\<close> returns, has a \<open>score\<close> that
  is a number and has \<open>improvements\<close> and \<open>strengths\<close> that are arrays. Nothing bounds the
  score.
\<close>

theorem result_checked_shape:
  "(fst (processResponse raw) = Inr r \<longrightarrow> checked_shape r)
   \<and> (fst (analyzeResume w s file) = Inr r \<longrightarrow> checked_shape r)
   \<and> (fst (analyzeResumeFromUrl w s url) = Inr r \<longrightarrow> checked_shape r)"
  using processResponse_result analyzeResume_result analyzeResumeFromUrl_result
  by blast

theorem result_checked_shape_witness:
  "fst (processResponse example_answer)
     = Inr (JObject [(js ''score'', JNumber 82), (js ''improvements'', JArray []),
                     (js ''strengths'', JArray [JString (js ''Clear formatting'')])])
   \<and> fst (analyzeResume example_world service_ready example_pdf_4MiB)
     = Inr (JObject [(js ''score'', JNumber 82), (js ''improvements'', JArray []),
                     (js ''strengths'', JArray [JString (js ''Clear formatting'')])])
   \<and> fst (analyzeResumeFromUrl example_world service_ready (js ''/cv.pdf''))
     = Inr (JObject [(js ''score'', JNumber 82), (js ''improvements'', JArray []),
                     (js ''strengths'', JArray [JString (js ''Clear formatting'')])])
   \<and> checked_shape (JObject [(js ''score'', JNumber 82), (js ''improvements'', JArray []),
                     (js ''strengths'', JArray [JString (js ''Clear formatting'')])])"
proof -
  have p: "fst (processResponse example_answer)
     = Inr (JObject [(js ''score'', JNumber 82), (js ''improvements'', JArray []),
                     (js ''strengths'', JArray [JString (js ''Clear formatting'')])])"
    by code_simp
  have c: "ai service_ready = Some (GoogleGenAI (js ''key''))"
    by (simp add: service_ready_def service_fresh_def initialize_def)
  have r: "\<And>b. fileToBase64 example_world b \<noteq> Inl ReaderError"
    by (simp add: fileToBase64_def example_world_def example_read_def)
  have g: "\<And>b. fst (analyzeWithGemini example_world service_ready b)
                 = fst (processResponse example_answer)"
    using r
    by (simp add: analyzeWithGemini_def c fileToBase64_def example_world_def
          example_generate_def example_read_def)
  have a: "fst (analyzeResume example_world service_ready example_pdf_4MiB)
     = Inr (JObject [(js ''score'', JNumber 82), (js ''improvements'', JArray []),
                     (js ''strengths'', JArray [JString (js ''Clear formatting'')])])"
    by (simp add: analyzeResume_def log_and_rethrow_fst example_pdf_4MiB_def g p)
  have u: "fst (analyzeResumeFromUrl example_world service_ready (js ''/cv.pdf''))
     = Inr (JObject [(js ''score'', JNumber 82), (js ''improvements'', JArray []),
                     (js ''strengths'', JArray [JString (js ''Clear formatting'')])])"
    by (simp add: analyzeResumeFromUrl_def log_and_rethrow_fst example_world_def
          example_fetch_def example_pdf_5MiB_def g [unfolded example_world_def] p)
       (simp add: js_def)
  show ?thesis
    using p a u
      result_checked_shape [where raw = example_answer and w = example_world
        and s = service_ready and url = "js ''/cv.pdf''"]
    by blast
qed

text \<open>
  The claim as it is worded fails: a response with the score 150 is returned as it is,
  and 150 is not in the range from 0 to 100.
\<close>

theorem result_invariant_counterexample:
  "fst (processResponse (js ''{\"score\":150,\"improvements\":[],\"strengths\":[]}''))
     = Inr (JObject [(js ''score'', JNumber 150), (js ''improvements'', JArray []),
                     (js ''strengths'', JArray [])])
   \<and> \<not> AnalysisResult_invariant
         (JObject [(js ''score'', JNumber 150), (js ''improvements'', JArray []),
                   (js ''strengths'', JArray [])])"
  by code_simp

subsection \<open>The prompt\<close>

text \<open>
  Claim C8. \<open>getAnalysisPrompt\<close> returns the same text whatever the state of the class
  it is called on, and that text is the prompt of every request, whatever the document.
\<close>

theorem getAnalysisPrompt_fixed:
  "getAnalysisPrompt s = getAnalysisPrompt s'
   \<and> text_part (analysis_request s file d) = getAnalysisPrompt s'"
  by (simp add: getAnalysisPrompt_def analysis_request_def)

end
